theory Spec2Isabelle
  imports Main "HOL-Library.Word"
begin

section \<open>Error codes\<close>

text \<open>
  \<^verbatim>\<open>ScreenCaptureCore::ErrorCode\<close> (ScreenCaptureCore.h) and the C enumeration
  \<^verbatim>\<open>ScreenCaptureResult\<close> (ScreenCaptureDLL.h), with their wire values.
\<close>

datatype ErrorCode =
    Success
  | InitializationFailed
  | CaptureItemCreationFailed
  | CaptureSessionFailed
  | TextureProcessingFailed
  | FileSaveFailed
  | TimeoutError
  | UnknownError

datatype ScreenCaptureResult =
    SC_SUCCESS
  | SC_INITIALIZATION_FAILED
  | SC_CAPTURE_ITEM_CREATION_FAILED
  | SC_CAPTURE_SESSION_FAILED
  | SC_TEXTURE_PROCESSING_FAILED
  | SC_FILE_SAVE_FAILED
  | SC_TIMEOUT_ERROR
  | SC_INVALID_PARAMETER
  | SC_NOT_IMPLEMENTED
  | SC_UNKNOWN_ERROR

fun ErrorCode_value :: "ErrorCode \<Rightarrow> int" where
  "ErrorCode_value Success = 0"
| "ErrorCode_value InitializationFailed = 1"
| "ErrorCode_value CaptureItemCreationFailed = 2"
| "ErrorCode_value CaptureSessionFailed = 3"
| "ErrorCode_value TextureProcessingFailed = 4"
| "ErrorCode_value FileSaveFailed = 5"
| "ErrorCode_value TimeoutError = 6"
| "ErrorCode_value UnknownError = 99"

fun ScreenCaptureResult_value :: "ScreenCaptureResult \<Rightarrow> int" where
  "ScreenCaptureResult_value SC_SUCCESS = 0"
| "ScreenCaptureResult_value SC_INITIALIZATION_FAILED = 1"
| "ScreenCaptureResult_value SC_CAPTURE_ITEM_CREATION_FAILED = 2"
| "ScreenCaptureResult_value SC_CAPTURE_SESSION_FAILED = 3"
| "ScreenCaptureResult_value SC_TEXTURE_PROCESSING_FAILED = 4"
| "ScreenCaptureResult_value SC_FILE_SAVE_FAILED = 5"
| "ScreenCaptureResult_value SC_TIMEOUT_ERROR = 6"
| "ScreenCaptureResult_value SC_INVALID_PARAMETER = 97"
| "ScreenCaptureResult_value SC_NOT_IMPLEMENTED = 98"
| "ScreenCaptureResult_value SC_UNKNOWN_ERROR = 99"

text \<open>\<^verbatim>\<open>ConvertErrorCode\<close> (ScreenCaptureDLL.cpp): the switch, case by case.\<close>

fun ConvertErrorCode :: "ErrorCode \<Rightarrow> ScreenCaptureResult" where
  "ConvertErrorCode Success = SC_SUCCESS"
| "ConvertErrorCode InitializationFailed = SC_INITIALIZATION_FAILED"
| "ConvertErrorCode CaptureItemCreationFailed = SC_CAPTURE_ITEM_CREATION_FAILED"
| "ConvertErrorCode CaptureSessionFailed = SC_CAPTURE_SESSION_FAILED"
| "ConvertErrorCode TextureProcessingFailed = SC_TEXTURE_PROCESSING_FAILED"
| "ConvertErrorCode FileSaveFailed = SC_FILE_SAVE_FAILED"
| "ConvertErrorCode TimeoutError = SC_TIMEOUT_ERROR"
| "ConvertErrorCode UnknownError = SC_UNKNOWN_ERROR"

text \<open>
  \<^verbatim>\<open>GetErrorDescription\<close> (ScreenCaptureDLL.cpp). A C enumeration parameter carries any
  integer the caller passes (the managed wrapper passes a plain \<^verbatim>\<open>int\<close>), so the argument
  is the integer value; the \<^verbatim>\<open>default\<close> label shares the text of \<^verbatim>\<open>SC_UNKNOWN_ERROR\<close>.
\<close>

definition GetErrorDescription :: "int \<Rightarrow> string" where
  "GetErrorDescription errorCode =
     (if errorCode = 0 then ''Operation completed successfully''
      else if errorCode = 1 then ''Failed to initialize capture system''
      else if errorCode = 2 then ''Failed to create capture item for monitor''
      else if errorCode = 3 then ''Failed to start capture session''
      else if errorCode = 4 then ''Failed to process captured texture''
      else if errorCode = 5 then ''Failed to save screenshot to file''
      else if errorCode = 6 then ''Timeout waiting for frame capture''
      else if errorCode = 97 then ''Invalid parameter provided''
      else if errorCode = 98 then ''Feature not yet implemented''
      else ''Unknown error occurred'')"

definition GetLibraryVersion :: "string" where
  "GetLibraryVersion = ''ScreenCaptureDLL v1.0.0 - Windows Graphics Capture API''"

section \<open>The C heap seen by the exported buffer functions\<close>

text \<open>
  A pointer is an address, \<open>0\<close> being \<^verbatim>\<open>nullptr\<close>. The heap maps the address of every
  live \<^verbatim>\<open>malloc\<close> block to its bytes. \<^verbatim>\<open>free\<close> of an address that is not a live block is
  undefined behaviour in C: the model returns \<open>None\<close> there.
\<close>

type_synonym ptr = nat
type_synonym byte = "8 word"
type_synonym heap = "ptr \<Rightarrow> byte list option"

definition free :: "ptr \<Rightarrow> heap \<Rightarrow> heap option" where
  "free p h = (case h p of None \<Rightarrow> None | Some bs \<Rightarrow> Some (h(p := None)))"

text \<open>\<^verbatim>\<open>FreeBuffer\<close> (ScreenCaptureDLL.cpp): \<^verbatim>\<open>if (buffer) { free(buffer); }\<close>.\<close>

definition FreeBuffer :: "ptr \<Rightarrow> heap \<Rightarrow> heap option" where
  "FreeBuffer buffer h = (if buffer = 0 then Some h else free buffer h)"

section \<open>The platform as seen by one capture invocation\<close>

text \<open>
  The capture pipeline is a fixed sequence of calls into Direct3D and the Windows
  Graphics Capture API. What this repository decides is the control flow around them:
  which call is made when, which failure ends the invocation, and which code is returned.
  The model therefore takes the answers of the platform as an input record and follows
  the source statement by statement.

  \<^item> A raw COM call answers with an \<^verbatim>\<open>HRESULT\<close>, a signed 32-bit value: the source
    tests its sign (\<^verbatim>\<open>FAILED(hr)\<close>) or passes it to \<^verbatim>\<open>winrt::check_hresult\<close>.
  \<^item> A projected WinRT call either returns or throws; \<open>None\<close> is a normal return.
  \<^item> C++ exceptions are values of \<open>exn\<close>, one constructor for each handler of
    \<^verbatim>\<open>InternalCapture\<close>: \<^verbatim>\<open>hresult_error\<close> (and the classes derived from it),
    \<^verbatim>\<open>std::exception\<close> (\<^verbatim>\<open>std::bad_alloc\<close> among them), and anything else.
\<close>

datatype exn = hresult_error | std_exception | other_exception

type_synonym HRESULT = int

definition FAILED :: "HRESULT \<Rightarrow> bool" where
  "FAILED hr = (hr < 0)"

text \<open>
  \<^verbatim>\<open>winrt::check_hresult\<close> throws on a negative result: \<^verbatim>\<open>std::bad_alloc\<close> for
  \<^verbatim>\<open>E_OUTOFMEMORY\<close> (0x8007000E), and \<^verbatim>\<open>hresult_error\<close> or a class derived from it for
  every other failure. \<^verbatim>\<open>as<T>()\<close> and \<^verbatim>\<open>get_activation_factory\<close> check their
  result in the same way.
\<close>

definition E_OUTOFMEMORY :: HRESULT where
  "E_OUTOFMEMORY = - 2147024882"

definition check_hresult :: "HRESULT \<Rightarrow> exn option" where
  "check_hresult hr =
     (if FAILED hr
      then (if hr = E_OUTOFMEMORY then Some std_exception else Some hresult_error)
      else None)"

text \<open>
  One delivery of the \<^verbatim>\<open>FrameArrived\<close> event: what the platform answers to the calls the
  handler makes. The two projected calls \<^verbatim>\<open>TryGetNextFrame\<close> and \<^verbatim>\<open>Surface\<close> check
  the result of the underlying call with \<^verbatim>\<open>check_hresult\<close>. \<open>bitmapData_allocated\<close>
  tells whether \<^verbatim>\<open>std::vector<uint8_t> bitmapData(dataSize)\<close> (line 251) gets its memory;
  it throws \<^verbatim>\<open>std::bad_alloc\<close> otherwise. \<open>save_outcome\<close> is the outcome of the whole
  block that creates the file, encodes the PNG and copies the stream (every call of it is
  a platform call, and the source handles all of its exceptions alike).
\<close>

record notification =
  hr_TryGetNextFrame :: HRESULT
  frame_present :: bool
  hr_Surface :: HRESULT
  hr_as_IDirect3DDxgiInterfaceAccess :: HRESULT
  hr_GetInterface :: HRESULT
  desc_Width :: nat
  desc_Height :: nat
  hr_CreateTexture2D :: HRESULT
  hr_Map :: HRESULT
  bitmapData_allocated :: bool
  save_outcome :: "exn option"

text \<open>
  One turn of the wait loop: the notifications that the message pump of this turn
  dispatches, in order, and the time the turn takes beyond the 50 ms it sleeps
  (the pump, the handlers it runs, and any oversleeping), in milliseconds.
\<close>

record iteration =
  dispatched :: "notification list"
  extra_ms :: nat

record platform =
  hr_D3D11CreateDevice :: HRESULT
  hr_QueryInterface_IDXGIDevice :: HRESULT
  hr_CreateDirect3D11DeviceFromDXGIDevice :: HRESULT
  hr_as_IDirect3DDevice :: HRESULT
  hr_get_activation_factory :: HRESULT
  hr_as_IGraphicsCaptureItemInterop :: HRESULT
  hr_CreateForMonitor :: HRESULT
  x_Size :: "exn option"
  item_Width :: int
  item_Height :: int
  x_FramePool_Create :: "exn option"
  x_CreateCaptureSession :: "exn option"
  x_IsCursorCaptureEnabled :: "exn option"
  x_IsBorderRequired :: "exn option"
  x_FrameArrived :: "exn option"
  x_StartCapture :: "exn option"
  pump :: "iteration list"
  x_Session_Close :: "exn option"
  x_FramePool_Close :: "exn option"

section \<open>What an invocation does: logger calls and resource calls\<close>

text \<open>
  The messages \<^verbatim>\<open>InternalCapture\<close> passes to \<^verbatim>\<open>Log\<close> and \<^verbatim>\<open>LogError\<close>, one constructor
  for each message text of the source:
  \<^item> \<open>Initializing\<close>: "Initializing capture system..."
  \<^item> \<open>CaptureItemCreated w h\<close>: "Capture item created. Size: w x h"
  \<^item> \<open>DisablingCursor\<close>: "Disabling cursor in capture..."
  \<^item> \<open>AttemptingBorder\<close>: "Attempting to disable border..."
  \<^item> \<open>BorderWarning\<close>: "Warning: Could not disable border (may require newer Windows version)"
  \<^item> \<open>SettingUpHandler\<close>: "Setting up frame handler..."
  \<^item> \<open>FrameArrivedTriggered\<close>: "FrameArrived event triggered!"
  \<^item> \<open>FrameCaptured\<close>: "Frame captured! Processing..."
  \<^item> \<open>TextureSize w h\<close>: "Texture size: w x h"
  \<^item> \<open>SavedTo path\<close>: "Screenshot saved successfully to path"
  \<^item> \<open>ErrorSaving\<close>: "Error saving screenshot to file"
  \<^item> \<open>ErrorProcessingFrame\<close>: "Error processing frame: ..."
  \<^item> \<open>NoFrameAvailable\<close>: "No frame available"
  \<^item> \<open>StartingSession\<close>: "Starting capture session..."
  \<^item> \<open>WaitingForFrame\<close>: "Waiting for frame (timeout: 10 seconds)..."
  \<^item> \<open>FrameProcessed\<close>: "Frame received and processed!"
  \<^item> \<open>TimeoutNoFrame\<close>: "Timeout: No frame received within 10 seconds"
  \<^item> \<open>CaptureCompleted\<close>: "Capture completed!"
  \<^item> \<open>CaptureError\<close>: "Capture error: ..."
  \<^item> \<open>StandardError\<close>: "Standard error: ..."
  \<^item> \<open>UnknownErrorOccurred\<close>: "Unknown error occurred"
\<close>

datatype message =
    Initializing
  | CaptureItemCreated int int
  | DisablingCursor
  | AttemptingBorder
  | BorderWarning
  | SettingUpHandler
  | FrameArrivedTriggered
  | FrameCaptured
  | TextureSize nat nat
  | SavedTo string
  | ErrorSaving
  | ErrorProcessingFrame
  | NoFrameAvailable
  | StartingSession
  | WaitingForFrame
  | FrameProcessed
  | TimeoutNoFrame
  | CaptureCompleted
  | CaptureError
  | StandardError
  | UnknownErrorOccurred

text \<open>
  The calls by which an invocation acquires, configures and releases platform
  resources, recorded when they are made.
\<close>

datatype api =
    init_apartment
  | Call_CreateD3DDevice
  | Call_CreateDirect3DDeviceFromD3D11Device
  | Call_CreateCaptureItemForMonitor
  | Size
  | FramePool_Create
  | CreateCaptureSession
  | IsCursorCaptureEnabled bool
  | IsBorderRequired bool
  | FrameArrived
  | StartCapture
  | Session_Close
  | FramePool_Close

datatype event = LogInfo message | LogError message | Call api

section \<open>The helpers of ScreenCaptureCore.cpp\<close>

text \<open>
  \<^verbatim>\<open>CreateD3DDevice\<close>: one call of \<^verbatim>\<open>D3D11CreateDevice\<close> with the list of seven feature
  levels; the platform picks the first level it supports or fails, and the source throws
  \<^verbatim>\<open>hresult_error\<close> on a failing result.
\<close>

definition CreateD3DDevice :: "platform \<Rightarrow> exn option" where
  "CreateD3DDevice p =
     (if FAILED (hr_D3D11CreateDevice p) then Some hresult_error else None)"

definition CreateDirect3DDeviceFromD3D11Device :: "platform \<Rightarrow> exn option" where
  "CreateDirect3DDeviceFromD3D11Device p =
     (case check_hresult (hr_QueryInterface_IDXGIDevice p) of
        Some e \<Rightarrow> Some e
      | None \<Rightarrow>
     (case check_hresult (hr_CreateDirect3D11DeviceFromDXGIDevice p) of
        Some e \<Rightarrow> Some e
      | None \<Rightarrow> check_hresult (hr_as_IDirect3DDevice p)))"

definition CreateCaptureItemForMonitor :: "platform \<Rightarrow> exn option" where
  "CreateCaptureItemForMonitor p =
     (case check_hresult (hr_get_activation_factory p) of
        Some e \<Rightarrow> Some e
      | None \<Rightarrow>
     (case check_hresult (hr_as_IGraphicsCaptureItemInterop p) of
        Some e \<Rightarrow> Some e
      | None \<Rightarrow> check_hresult (hr_CreateForMonitor p)))"

section \<open>The FrameArrived handler\<close>

text \<open>
  The variables the handler shares with the waiting code (\<^verbatim>\<open>frameReceived\<close>,
  \<^verbatim>\<open>captureSuccess\<close>), and the events of the invocation so far.
\<close>

record cb_state =
  frameReceived :: bool
  captureSuccess :: bool
  trace :: "event list"

definition emit :: "event \<Rightarrow> cb_state \<Rightarrow> cb_state" where
  "emit e st = st\<lparr>trace := trace st @ [e]\<rparr>"

text \<open>
  The body of the handler's \<^verbatim>\<open>try\<close> block, for a frame that
  \<^verbatim>\<open>TryGetNextFrame\<close> returned: the surface, the interface negotiation
  (\<^verbatim>\<open>surface.as\<close>, \<^verbatim>\<open>GetInterface\<close>), the staging texture, the mapping, the copy
  of the bytes into a vector, then the save block, whose own \<^verbatim>\<open>catch (...)\<close> logs
  and goes on, and the completion signal. The first component is the exception that
  leaves the block, if any.
\<close>

definition process_frame :: "string \<Rightarrow> notification \<Rightarrow> cb_state \<Rightarrow> exn option \<times> cb_state" where
  "process_frame outputPath n st =
     (let st1 = emit (LogInfo FrameCaptured) st in
      if check_hresult (hr_Surface n) \<noteq> None
      then (check_hresult (hr_Surface n), st1)
      else if check_hresult (hr_as_IDirect3DDxgiInterfaceAccess n) \<noteq> None
      then (check_hresult (hr_as_IDirect3DDxgiInterfaceAccess n), st1)
      else if check_hresult (hr_GetInterface n) \<noteq> None
      then (check_hresult (hr_GetInterface n), st1)
      else
        let st2 = emit (LogInfo (TextureSize (desc_Width n) (desc_Height n))) st1 in
        if check_hresult (hr_CreateTexture2D n) \<noteq> None
        then (check_hresult (hr_CreateTexture2D n), st2)
        else if check_hresult (hr_Map n) \<noteq> None
        then (check_hresult (hr_Map n), st2)
        else if \<not> bitmapData_allocated n
        then (Some std_exception, st2)
        else
          let st3 = (case save_outcome n of
                       None \<Rightarrow> (emit (LogInfo (SavedTo outputPath)) st2)\<lparr>captureSuccess := True\<rparr>
                     | Some e \<Rightarrow> emit (LogError ErrorSaving) st2)
          in (None, st3\<lparr>frameReceived := True\<rparr>))"

text \<open>
  The handler. \<^verbatim>\<open>TryGetNextFrame\<close> stands before the \<^verbatim>\<open>try\<close>. With no frame there is
  nothing but a log line; otherwise the block above runs, and
  \<^verbatim>\<open>catch (hresult_error const&)\<close> logs and signals completion all the same. The handler
  has no other \<^verbatim>\<open>catch\<close>: any other exception, and any exception of
  \<^verbatim>\<open>TryGetNextFrame\<close>, leaves the handler with the shared variables as they are; it ends
  at the delegate's boundary, which turns it into the result of the event call, and the
  waiting code goes on.
\<close>

definition FrameArrived_handler :: "string \<Rightarrow> notification \<Rightarrow> cb_state \<Rightarrow> cb_state" where
  "FrameArrived_handler outputPath n st =
     (let st1 = emit (LogInfo FrameArrivedTriggered) st in
      if check_hresult (hr_TryGetNextFrame n) \<noteq> None then st1
      else if frame_present n then
        (case process_frame outputPath n st1 of
           (None, st2) \<Rightarrow> st2
         | (Some e, st2) \<Rightarrow>
             if e = hresult_error
             then (emit (LogError ErrorProcessingFrame) st2)\<lparr>frameReceived := True\<rparr>
             else st2)
      else emit (LogError NoFrameAvailable) st1)"

section \<open>The wait loop\<close>

text \<open>
  The frame pool is made with \<^verbatim>\<open>Direct3D11CaptureFramePool::Create\<close>, which raises
  \<^verbatim>\<open>FrameArrived\<close> on the thread that created the pool, from its message queue: the
  handler runs inside \<^verbatim>\<open>DispatchMessage\<close>, between two tests of the flag. One drain of
  the queue runs the handler once for each notification it holds; a drain ends, the
  queue holding finitely many messages.
\<close>

definition PumpMessages :: "string \<Rightarrow> notification list \<Rightarrow> cb_state \<Rightarrow> cb_state" where
  "PumpMessages outputPath ns st = fold (FrameArrived_handler outputPath) ns st"

text \<open>The next turn of the platform's script; once the script is used up, idle turns.\<close>

definition next_iteration :: "iteration list \<Rightarrow> iteration" where
  "next_iteration its =
     (case its of [] \<Rightarrow> \<lparr>dispatched = [], extra_ms = 0\<rparr> | it # rest \<Rightarrow> it)"

text \<open>
  \<^verbatim>\<open>while (!frameReceived && (steady_clock::now() - start) < timeout)\<close> with
  \<^verbatim>\<open>timeout = seconds(10)\<close>; each turn drains the message queue and sleeps 50 ms.
  \<open>elapsed\<close> is \<^verbatim>\<open>now() - start\<close> in milliseconds at the test of the condition. The
  function returns the shared state and the elapsed time at the exit of the loop.
\<close>

function wait_loop :: "string \<Rightarrow> iteration list \<Rightarrow> nat \<Rightarrow> cb_state \<Rightarrow> cb_state \<times> nat" where
  "wait_loop outputPath its elapsed st =
     (if \<not> frameReceived st \<and> elapsed < 10000 then
        wait_loop outputPath (tl its)
          (elapsed + extra_ms (next_iteration its) + 50)
          (PumpMessages outputPath (dispatched (next_iteration its)) st)
      else (st, elapsed))"
  by pat_completeness auto
termination
  by (relation "measure (\<lambda>(outputPath, its, elapsed, st). 10000 - elapsed)") auto

declare wait_loop.simps [simp del]

section \<open>InternalCapture\<close>

text \<open>
  Steps 1 to 7 of \<^verbatim>\<open>InternalCapture\<close>, up to and including
  \<^verbatim>\<open>session.StartCapture()\<close>: the exception that ends them, if any, and the events
  so far. \<^verbatim>\<open>captureItem.Size()\<close> is first called for the log line, so its failure
  comes before that line. Only the border toggle has a \<^verbatim>\<open>try\<close> of its own.
\<close>

definition InternalCapture_setup :: "platform \<Rightarrow> bool \<Rightarrow> bool \<Rightarrow> exn option \<times> event list" where
  "InternalCapture_setup p hideBorder hideCursor =
     (let t1 = [LogInfo Initializing, Call Call_CreateD3DDevice] in
      if CreateD3DDevice p \<noteq> None then (CreateD3DDevice p, t1) else
      let t2 = t1 @ [Call Call_CreateDirect3DDeviceFromD3D11Device] in
      if CreateDirect3DDeviceFromD3D11Device p \<noteq> None
      then (CreateDirect3DDeviceFromD3D11Device p, t2) else
      let t3 = t2 @ [Call Call_CreateCaptureItemForMonitor] in
      if CreateCaptureItemForMonitor p \<noteq> None
      then (CreateCaptureItemForMonitor p, t3) else
      let t3' = t3 @ [Call Size] in
      if x_Size p \<noteq> None then (x_Size p, t3') else
      let t4 = t3' @ [LogInfo (CaptureItemCreated (item_Width p) (item_Height p)),
                      Call FramePool_Create] in
      if x_FramePool_Create p \<noteq> None then (x_FramePool_Create p, t4) else
      let t5 = t4 @ [Call CreateCaptureSession] in
      if x_CreateCaptureSession p \<noteq> None then (x_CreateCaptureSession p, t5) else
      let t6 = (if hideCursor
                then t5 @ [LogInfo DisablingCursor, Call (IsCursorCaptureEnabled False)]
                else t5) in
      if hideCursor \<and> x_IsCursorCaptureEnabled p \<noteq> None
      then (x_IsCursorCaptureEnabled p, t6) else
      let t7 = (if hideBorder
                then t6 @ [LogInfo AttemptingBorder, Call (IsBorderRequired False)]
                       @ (if x_IsBorderRequired p \<noteq> None then [LogInfo BorderWarning] else [])
                else t6) in
      let t8 = t7 @ [LogInfo SettingUpHandler, Call FrameArrived] in
      if x_FrameArrived p \<noteq> None then (x_FrameArrived p, t8) else
      let t9 = t8 @ [LogInfo StartingSession, Call StartCapture] in
      (x_StartCapture p, t9))"

text \<open>
  What an invocation returns and what it did. \<open>waited_ms\<close> is the time spent in the
  wait loop (0 when the loop was not reached).
\<close>

record capture_result =
  code :: ErrorCode
  events :: "event list"
  waited_ms :: nat

text \<open>
  The three handlers of the outer \<^verbatim>\<open>try\<close> of \<^verbatim>\<open>InternalCapture\<close>, for an
  exception thrown after the events \<open>t\<close> and \<open>w\<close> milliseconds of waiting.
\<close>

definition outer_catch :: "exn \<Rightarrow> event list \<Rightarrow> nat \<Rightarrow> capture_result" where
  "outer_catch e t w =
     (case e of
        hresult_error \<Rightarrow>
          \<lparr>code = CaptureSessionFailed, events = t @ [LogError CaptureError], waited_ms = w\<rparr>
      | std_exception \<Rightarrow>
          \<lparr>code = UnknownError, events = t @ [LogError StandardError], waited_ms = w\<rparr>
      | other_exception \<Rightarrow>
          \<lparr>code = UnknownError, events = t @ [LogError UnknownErrorOccurred], waited_ms = w\<rparr>)"

text \<open>
  The cleanup and the final code (lines 372 to 378), reached with the flag set: the two
  \<^verbatim>\<open>Close()\<close> calls stand inside the outer \<^verbatim>\<open>try\<close>, so an exception of either goes to
  its handlers.
\<close>

definition InternalCapture_cleanup :: "platform \<Rightarrow> cb_state \<Rightarrow> nat \<Rightarrow> capture_result" where
  "InternalCapture_cleanup p st elapsed =
     (let t1 = trace st @ [LogInfo FrameProcessed, Call Session_Close] in
      case x_Session_Close p of
        Some e \<Rightarrow> outer_catch e t1 elapsed
      | None \<Rightarrow>
          (let t2 = t1 @ [Call FramePool_Close] in
           case x_FramePool_Close p of
             Some e \<Rightarrow> outer_catch e t2 elapsed
           | None \<Rightarrow>
               \<lparr>code = (if captureSuccess st then Success else FileSaveFailed),
                events = t2 @ [LogInfo CaptureCompleted],
                waited_ms = elapsed\<rparr>))"

text \<open>
  \<^verbatim>\<open>InternalCapture\<close>: the setup, the wait, the test of the flag at line 361, then the
  cleanup or the return of \<^verbatim>\<open>TimeoutError\<close>.
\<close>

definition InternalCapture :: "platform \<Rightarrow> string \<Rightarrow> bool \<Rightarrow> bool \<Rightarrow> capture_result" where
  "InternalCapture p outputPath hideBorder hideCursor =
     (case InternalCapture_setup p hideBorder hideCursor of
        (Some e, t) \<Rightarrow> outer_catch e t 0
      | (None, t) \<Rightarrow>
          (case wait_loop outputPath (pump p) 0
                  \<lparr>frameReceived = False, captureSuccess = False,
                   trace = t @ [LogInfo WaitingForFrame]\<rparr> of
             (st, elapsed) \<Rightarrow>
               if frameReceived st then InternalCapture_cleanup p st elapsed
               else
                 \<lparr>code = TimeoutError,
                  events = trace st @ [LogError TimeoutNoFrame],
                  waited_ms = elapsed\<rparr>))"

text \<open>The two overloads of \<^verbatim>\<open>ScreenCapture::CaptureToFile\<close>.\<close>

definition CaptureToFile :: "platform \<Rightarrow> string \<Rightarrow> bool \<Rightarrow> bool \<Rightarrow> capture_result" where
  "CaptureToFile p outputPath hideBorder hideCursor =
     InternalCapture p outputPath hideBorder hideCursor"

definition CaptureToFile_default :: "platform \<Rightarrow> string \<Rightarrow> capture_result" where
  "CaptureToFile_default p outputPath = CaptureToFile p outputPath True True"

section \<open>The exported functions of ScreenCaptureDLL.cpp\<close>

text \<open>
  \<^verbatim>\<open>CaptureScreenWithOptions\<close>. \<open>outputPath\<close> is a C pointer to a wide string:
  \<open>None\<close> is the null pointer, \<open>Some s\<close> a string of \<^verbatim>\<open>wcslen\<close> \<open>length s\<close>.
  After the validation the function builds a \<^verbatim>\<open>ScreenCapture\<close>, whose constructor
  calls \<^verbatim>\<open>init_apartment\<close> and ignores its failure, and converts the code that
  \<^verbatim>\<open>CaptureToFile\<close> returns. The second component is what the call did.
  \<^verbatim>\<open>InternalCapture\<close> catches every exception itself, so the \<^verbatim>\<open>catch (...)\<close> of this
  function is reached by no path of the model.
\<close>

definition CaptureScreenWithOptions ::
  "platform \<Rightarrow> string option \<Rightarrow> int \<Rightarrow> int \<Rightarrow> ScreenCaptureResult \<times> event list" where
  "CaptureScreenWithOptions p outputPath hideBorder hideCursor =
     (case outputPath of
        None \<Rightarrow> (SC_INVALID_PARAMETER, [])
      | Some path \<Rightarrow>
          if length path = 0 then (SC_INVALID_PARAMETER, [])
          else
            let r = CaptureToFile p path (hideBorder \<noteq> 0) (hideCursor \<noteq> 0)
            in (ConvertErrorCode (code r), Call init_apartment # events r))"

definition CaptureScreen :: "platform \<Rightarrow> string option \<Rightarrow> ScreenCaptureResult \<times> event list" where
  "CaptureScreen p outputPath = CaptureScreenWithOptions p outputPath 1 1"

text \<open>
  \<^verbatim>\<open>CaptureScreenToMemory\<close>. \<^verbatim>\<open>ScreenCapture::CaptureToMemory\<close> is declared in
  ScreenCaptureCore.h and defined nowhere in the sources at hand, so what it does is a
  parameter: it returns a code and the bytes it left in the vector, or throws.
  \<^verbatim>\<open>malloc\<close> is a parameter too: the address it returns for a size, \<open>0\<close> when it fails.

  An out-parameter is \<open>None\<close> when the caller passed a null pointer and \<open>Some v\<close> when
  it points to a variable of the caller that holds \<open>v\<close>; the function returns the
  out-parameters as the caller finds them afterwards. \<^verbatim>\<open>unsigned int\<close> is 32 bits wide:
  \<^verbatim>\<open>static_cast<unsigned int>(buffer.size())\<close> keeps the low 32 bits of the length.
\<close>

datatype core_outcome = CoreReturns ErrorCode "byte list" | CoreThrows

definition CaptureScreenToMemory ::
  "(bool \<Rightarrow> bool \<Rightarrow> core_outcome) \<Rightarrow> (nat \<Rightarrow> ptr) \<Rightarrow> ptr option \<Rightarrow> 32 word option \<Rightarrow> int \<Rightarrow> int \<Rightarrow> heap
     \<Rightarrow> ScreenCaptureResult \<times> ptr option \<times> 32 word option \<times> heap" where
  "CaptureScreenToMemory CaptureToMemory malloc outputBuffer bufferSize hideBorder hideCursor h =
     (if outputBuffer = None \<or> bufferSize = None
      then (SC_INVALID_PARAMETER, outputBuffer, bufferSize, h)
      else
        (case CaptureToMemory (hideBorder \<noteq> 0) (hideCursor \<noteq> 0) of
           CoreThrows \<Rightarrow> (SC_UNKNOWN_ERROR, Some 0, Some 0, h)
         | CoreReturns result buffer \<Rightarrow>
             if result = Success \<and> buffer \<noteq> [] then
               (let size = (word_of_nat (length buffer) :: 32 word);
                    a = malloc (unat size)
                in if a \<noteq> 0
                   then (SC_SUCCESS, Some a, Some size, h(a \<mapsto> take (unat size) buffer))
                   else (SC_UNKNOWN_ERROR, Some a, Some size, h))
             else (ConvertErrorCode result, Some 0, Some 0, h)))"

section \<open>Notions used in the statements and proofs\<close>

text \<open>The longest extra time of a turn in the platform's script.\<close>

fun max_extra_ms :: "iteration list \<Rightarrow> nat" where
  "max_extra_ms [] = 0"
| "max_extra_ms (it # its) = max (extra_ms it) (max_extra_ms its)"

text \<open>
  What the handler keeps true of the shared variables: \<^verbatim>\<open>captureSuccess\<close> is set
  exactly when a save has been logged, and a save that succeeded or failed has
  signalled completion.
\<close>

definition handler_inv :: "string \<Rightarrow> cb_state \<Rightarrow> bool" where
  "handler_inv path st \<longleftrightarrow>
     (captureSuccess st \<longleftrightarrow> LogInfo (SavedTo path) \<in> set (trace st)) \<and>
     (LogError ErrorSaving \<in> set (trace st) \<longrightarrow> frameReceived st) \<and>
     (captureSuccess st \<longrightarrow> frameReceived st)"

text \<open>Two states of the shared variables that differ in the recorded events only.\<close>

definition same_flags :: "cb_state \<Rightarrow> cb_state \<Rightarrow> bool" where
  "same_flags st st' \<longleftrightarrow>
     frameReceived st = frameReceived st' \<and> captureSuccess st = captureSuccess st'"

text \<open>
  The one allocation a call of \<^verbatim>\<open>CaptureScreenToMemory\<close> makes, and whether it fails:
  \<^verbatim>\<open>malloc\<close> is called only when the core reports success with a non-empty vector, for
  the low 32 bits of its length.
\<close>

definition allocation_fails :: "(bool \<Rightarrow> bool \<Rightarrow> core_outcome) \<Rightarrow> (nat \<Rightarrow> ptr) \<Rightarrow> int \<Rightarrow> int \<Rightarrow> bool" where
  "allocation_fails CaptureToMemory malloc hideBorder hideCursor =
     (case CaptureToMemory (hideBorder \<noteq> 0) (hideCursor \<noteq> 0) of
        CoreThrows \<Rightarrow> False
      | CoreReturns result buffer \<Rightarrow>
          result = Success \<and> buffer \<noteq> [] \<and>
          malloc (unat (word_of_nat (length buffer) :: 32 word)) = 0)"

section \<open>Concrete platforms\<close>

text \<open>
  Failure codes of the platform, as signed 32-bit values:
  \<^verbatim>\<open>E_FAIL\<close> = 0x80004005, \<^verbatim>\<open>E_NOINTERFACE\<close> = 0x80004002,
  \<^verbatim>\<open>DXGI_ERROR_UNSUPPORTED\<close> = 0x887A0004.
\<close>

definition E_FAIL :: HRESULT where "E_FAIL = - 2147467259"

definition E_NOINTERFACE :: HRESULT where "E_NOINTERFACE = - 2147467262"

definition DXGI_ERROR_UNSUPPORTED :: HRESULT where "DXGI_ERROR_UNSUPPORTED = - 2005270524"

text \<open>
  A platform on which every call succeeds and the second turn of the wait loop
  delivers one frame that is saved; and variants of it.
\<close>

definition working_notification :: notification where
  "working_notification =
     \<lparr>hr_TryGetNextFrame = 0, frame_present = True, hr_Surface = 0,
      hr_as_IDirect3DDxgiInterfaceAccess = 0, hr_GetInterface = 0,
      desc_Width = 1920, desc_Height = 1080, hr_CreateTexture2D = 0, hr_Map = 0,
      bitmapData_allocated = True, save_outcome = None\<rparr>"

definition working_platform :: platform where
  "working_platform =
     \<lparr>hr_D3D11CreateDevice = 0, hr_QueryInterface_IDXGIDevice = 0,
      hr_CreateDirect3D11DeviceFromDXGIDevice = 0, hr_as_IDirect3DDevice = 0,
      hr_get_activation_factory = 0, hr_as_IGraphicsCaptureItemInterop = 0,
      hr_CreateForMonitor = 0, x_Size = None, item_Width = 1920, item_Height = 1080,
      x_FramePool_Create = None, x_CreateCaptureSession = None,
      x_IsCursorCaptureEnabled = None, x_IsBorderRequired = None,
      x_FrameArrived = None, x_StartCapture = None,
      pump = [\<lparr>dispatched = [], extra_ms = 3\<rparr>,
              \<lparr>dispatched = [working_notification], extra_ms = 120\<rparr>],
      x_Session_Close = None, x_FramePool_Close = None\<rparr>"

text \<open>No notification ever arrives.\<close>

definition silent_platform :: platform where
  "silent_platform = working_platform\<lparr>pump := [\<lparr>dispatched = [], extra_ms = 7\<rparr>]\<rparr>"

text \<open>
  The message queue is busy with other messages for ten seconds and the frame is queued
  behind them: the first drain takes 9950 ms and dispatches no notification, and the
  notification would come with the second drain.
\<close>

definition late_frame_platform :: platform where
  "late_frame_platform = working_platform
     \<lparr>pump := [\<lparr>dispatched = [], extra_ms = 9950\<rparr>,
                \<lparr>dispatched = [working_notification], extra_ms = 120\<rparr>]\<rparr>"

text \<open>The one frame arrives, and the save block throws.\<close>

definition save_denied_platform :: platform where
  "save_denied_platform = working_platform
     \<lparr>pump := [\<lparr>dispatched = [working_notification\<lparr>save_outcome := Some hresult_error\<rparr>],
                extra_ms = 40\<rparr>]\<rparr>"

text \<open>The frame is saved, and \<^verbatim>\<open>session.Close()\<close> throws.\<close>

definition close_fails_platform :: platform where
  "close_fails_platform = working_platform\<lparr>x_Session_Close := Some hresult_error\<rparr>"

text \<open>The frame arrives, and mapping the staging texture runs out of memory.\<close>

definition map_out_of_memory_platform :: platform where
  "map_out_of_memory_platform = working_platform
     \<lparr>pump := [\<lparr>dispatched = [working_notification\<lparr>hr_Map := E_OUTOFMEMORY\<rparr>],
                extra_ms = 40\<rparr>]\<rparr>"

text \<open>
  Stand-ins for \<^verbatim>\<open>CaptureToMemory\<close> and \<^verbatim>\<open>malloc\<close>: a core that leaves the eight bytes
  of the PNG signature, a core that reports success and leaves no byte, a core that
  times out, an allocator that answers with one fixed address, and one that does so for
  requests of up to 1024 bytes and fails for larger ones.
\<close>

definition png_signature :: "byte list" where
  "png_signature = [0x89, 0x50, 0x4E, 0x47, 0x0D, 0x0A, 0x1A, 0x0A]"

definition signature_core :: "bool \<Rightarrow> bool \<Rightarrow> core_outcome" where
  "signature_core hideBorder hideCursor = CoreReturns Success png_signature"

definition empty_core :: "bool \<Rightarrow> bool \<Rightarrow> core_outcome" where
  "empty_core hideBorder hideCursor = CoreReturns Success []"

definition timeout_core :: "bool \<Rightarrow> bool \<Rightarrow> core_outcome" where
  "timeout_core hideBorder hideCursor = CoreReturns TimeoutError []"

definition fixed_malloc :: "nat \<Rightarrow> ptr" where
  "fixed_malloc n = 4096"

definition small_malloc :: "nat \<Rightarrow> ptr" where
  "small_malloc n = (if n \<le> 1024 then 4096 else 0)"

section \<open>Lemmas\<close>

lemmas capture_defs =
  InternalCapture_def InternalCapture_setup_def InternalCapture_cleanup_def outer_catch_def
  CreateD3DDevice_def CreateDirect3DDeviceFromD3D11Device_def CreateCaptureItemForMonitor_def
  check_hresult_def FAILED_def E_OUTOFMEMORY_def PumpMessages_def next_iteration_def
  FrameArrived_handler_def process_frame_def emit_def Let_def

lemmas example_defs =
  working_platform_def working_notification_def silent_platform_def save_denied_platform_def
  late_frame_platform_def close_fails_platform_def map_out_of_memory_platform_def
  E_FAIL_def E_NOINTERFACE_def DXGI_ERROR_UNSUPPORTED_def

subsection \<open>The handler and the pump keep the invariant\<close>

lemma emit_sel [simp]:
  "trace (emit e st) = trace st @ [e]"
  "frameReceived (emit e st) = frameReceived st"
  "captureSuccess (emit e st) = captureSuccess st"
  by (simp_all add: emit_def)

lemma check_hresult_cases:
  "check_hresult hr = None \<or> check_hresult hr = Some hresult_error
     \<or> check_hresult hr = Some std_exception"
  by (simp add: check_hresult_def)

lemma process_frame_inv:
  assumes "handler_inv path st" and "process_frame path n st = (x, st')"
  shows "handler_inv path st'"
  using assms
  by (auto simp: process_frame_def handler_inv_def Let_def split: if_splits option.splits)

lemma handler_preserves_inv:
  assumes "handler_inv path st"
  shows "handler_inv path (FrameArrived_handler path n st)"
proof -
  have st1: "handler_inv path (emit (LogInfo FrameArrivedTriggered) st)"
    using assms by (simp add: handler_inv_def)
  obtain x st2 where pf:
    "process_frame path n (emit (LogInfo FrameArrivedTriggered) st) = (x, st2)"
    by (cases "process_frame path n (emit (LogInfo FrameArrivedTriggered) st)")
  from process_frame_inv [OF st1 pf] have inv2: "handler_inv path st2" by simp
  have caught: "handler_inv path ((emit (LogError ErrorProcessingFrame) st2)\<lparr>frameReceived := True\<rparr>)"
    using inv2 by (auto simp: handler_inv_def)
  have nofr: "handler_inv path (emit (LogError NoFrameAvailable) (emit (LogInfo FrameArrivedTriggered) st))"
    using st1 by (simp add: handler_inv_def)
  show ?thesis
    using st1 inv2 caught nofr pf
    by (simp add: FrameArrived_handler_def Let_def split: option.splits)
qed

lemma pump_preserves_inv:
  "handler_inv path st \<Longrightarrow> handler_inv path (PumpMessages path ns st)"
  unfolding PumpMessages_def
  by (induction ns arbitrary: st) (simp_all add: handler_preserves_inv)

lemma wait_loop_preserves_inv:
  "handler_inv path st \<Longrightarrow> handler_inv path (fst (wait_loop path its t st))"
proof (induction path its t st rule: wait_loop.induct)
  case (1 path its t st)
  show ?case
  proof (cases "\<not> frameReceived st \<and> t < 10000")
    case True
    then show ?thesis
      using "1.IH" [OF True pump_preserves_inv [OF "1.prems"]]
      by (subst wait_loop.simps) simp
  next
    case False
    then show ?thesis using "1.prems" by (subst wait_loop.simps) auto
  qed
qed

subsection \<open>Events are only ever added\<close>

lemma process_frame_trace_mono:
  "set (trace st) \<subseteq> set (trace (snd (process_frame path n st)))"
  by (auto simp: process_frame_def Let_def split: option.splits)

lemma handler_trace_mono:
  "set (trace st) \<subseteq> set (trace (FrameArrived_handler path n st))"
proof -
  obtain x st2 where pf:
    "process_frame path n (emit (LogInfo FrameArrivedTriggered) st) = (x, st2)"
    by (cases "process_frame path n (emit (LogInfo FrameArrivedTriggered) st)")
  from process_frame_trace_mono [of "emit (LogInfo FrameArrivedTriggered) st" path n] pf
  have "set (trace st) \<subseteq> set (trace st2)" by auto
  then show ?thesis using pf
    by (auto simp: FrameArrived_handler_def Let_def split: option.splits)
qed

lemma handler_logs_arrival:
  "LogInfo FrameArrivedTriggered \<in> set (trace (FrameArrived_handler path n st))"
proof -
  obtain x st2 where pf:
    "process_frame path n (emit (LogInfo FrameArrivedTriggered) st) = (x, st2)"
    by (cases "process_frame path n (emit (LogInfo FrameArrivedTriggered) st)")
  from process_frame_trace_mono [of "emit (LogInfo FrameArrivedTriggered) st" path n] pf
  have "LogInfo FrameArrivedTriggered \<in> set (trace st2)" by auto
  then show ?thesis using pf
    by (auto simp: FrameArrived_handler_def Let_def split: option.splits)
qed

lemma pump_trace_mono:
  "set (trace st) \<subseteq> set (trace (PumpMessages path ns st))"
  unfolding PumpMessages_def
proof (induction ns arbitrary: st)
  case Nil
  show ?case by simp
next
  case (Cons n ns)
  from handler_trace_mono [of st path n] Cons [of "FrameArrived_handler path n st"]
  show ?case by auto
qed

lemma pump_logs_arrival:
  assumes "ns \<noteq> []"
  shows "LogInfo FrameArrivedTriggered \<in> set (trace (PumpMessages path ns st))"
proof (cases ns)
  case Nil
  then show ?thesis using assms by simp
next
  case (Cons n rest)
  from handler_logs_arrival [of path n st]
    pump_trace_mono [of "FrameArrived_handler path n st" path rest]
  show ?thesis by (auto simp: Cons PumpMessages_def)
qed

lemma wait_loop_trace_mono:
  "set (trace st) \<subseteq> set (trace (fst (wait_loop path its t st)))"
proof (induction path its t st rule: wait_loop.induct)
  case (1 path its t st)
  show ?case
  proof (cases "\<not> frameReceived st \<and> t < 10000")
    case True
    from "1.IH" [OF True] pump_trace_mono [of st path "dispatched (next_iteration its)"]
    show ?thesis using True by (subst wait_loop.simps) auto
  next
    case False
    then show ?thesis by (subst wait_loop.simps) auto
  qed
qed

subsection \<open>The wait loop without notifications\<close>

lemma next_iteration_extra_take:
  "extra_ms (next_iteration its) \<le> max_extra_ms (take (Suc m) its)"
  by (cases its) (simp_all add: next_iteration_def)

lemma max_extra_take_tl:
  "max_extra_ms (take m (tl its)) \<le> max_extra_ms (take (Suc m) its)"
  by (cases its) simp_all

lemma max_extra_take: "max_extra_ms (take m its) \<le> max_extra_ms its"
proof (induction its arbitrary: m)
  case Nil
  show ?case by simp
next
  case (Cons it its)
  show ?case
  proof (cases m)
    case 0
    then show ?thesis by simp
  next
    case (Suc k)
    from Cons [of k] show ?thesis by (simp add: Suc max.coboundedI2)
  qed
qed

lemma wait_loop_quiet:
  assumes "LogInfo FrameArrivedTriggered \<notin> set (trace (fst (wait_loop path its t st)))"
      and "\<not> frameReceived st"
  shows "fst (wait_loop path its t st) = st \<and> 10000 \<le> snd (wait_loop path its t st)"
  using assms
proof (induction path its t st rule: wait_loop.induct)
  case (1 path its t st)
  show ?case
  proof (cases "t < 10000")
    case True
    have c: "\<not> frameReceived st \<and> t < 10000" using True "1.prems"(2) by simp
    have eq: "wait_loop path its t st =
                wait_loop path (tl its) (t + extra_ms (next_iteration its) + 50)
                  (PumpMessages path (dispatched (next_iteration its)) st)"
      using c by (subst wait_loop.simps) simp
    have none: "dispatched (next_iteration its) = []"
    proof (rule ccontr)
      assume ne: "dispatched (next_iteration its) \<noteq> []"
      from pump_logs_arrival [OF ne, of path st]
        wait_loop_trace_mono [of "PumpMessages path (dispatched (next_iteration its)) st"
          path "tl its" "t + extra_ms (next_iteration its) + 50"]
      have "LogInfo FrameArrivedTriggered \<in> set (trace (fst (wait_loop path its t st)))"
        by (auto simp: eq)
      with "1.prems"(1) show False by simp
    qed
    have pm: "PumpMessages path (dispatched (next_iteration its)) st = st"
      by (simp add: none PumpMessages_def)
    from "1.IH" [OF c] "1.prems" show ?thesis by (simp add: eq pm)
  next
    case False
    then show ?thesis by (subst (1 2) wait_loop.simps) simp
  qed
qed

lemma wait_loop_bounded:
  assumes "t \<le> 10049 + d" and "max_extra_ms (take m its) \<le> d" and "10000 \<le> t + 50 * m"
  shows "snd (wait_loop path its t st) \<le> 10049 + d"
  using assms
proof (induction path its t st arbitrary: m rule: wait_loop.induct)
  case (1 path its t st)
  show ?case
  proof (cases "\<not> frameReceived st \<and> t < 10000")
    case True
    then obtain k where m: "m = Suc k" using "1.prems"(3) by (cases m) auto
    have e: "extra_ms (next_iteration its) \<le> d"
      using next_iteration_extra_take [of its k] "1.prems"(2) m by simp
    have t': "t + extra_ms (next_iteration its) + 50 \<le> 10049 + d" using True e by simp
    have mx: "max_extra_ms (take k (tl its)) \<le> d"
      using max_extra_take_tl [of k its] "1.prems"(2) m by simp
    have far: "10000 \<le> t + extra_ms (next_iteration its) + 50 + 50 * k"
      using "1.prems"(3) m by simp
    from "1.IH" [OF True t' mx far] show ?thesis using True by (subst wait_loop.simps) simp
  next
    case False
    then show ?thesis using "1.prems"(1) by (subst wait_loop.simps) auto
  qed
qed

lemma next_iteration_idle:
  "\<forall>it\<in>set its. dispatched it = [] \<Longrightarrow> dispatched (next_iteration its) = []"
  by (cases its) (simp_all add: next_iteration_def)

lemma set_tl_idle:
  "\<forall>it\<in>set its. dispatched it = [] \<Longrightarrow> \<forall>it\<in>set (tl its). dispatched it = []"
  by (cases its) simp_all

lemma wait_loop_idle:
  assumes "\<forall>it\<in>set its. dispatched it = []"
  shows "fst (wait_loop path its t st) = st"
  using assms
proof (induction path its t st rule: wait_loop.induct)
  case (1 path its t st)
  show ?case
  proof (cases "\<not> frameReceived st \<and> t < 10000")
    case True
    have pm: "PumpMessages path (dispatched (next_iteration its)) st = st"
      using next_iteration_idle [OF "1.prems"] by (simp add: PumpMessages_def)
    from "1.IH" [OF True set_tl_idle [OF "1.prems"]] pm
    show ?thesis using True by (subst wait_loop.simps) simp
  next
    case False
    then show ?thesis by (subst wait_loop.simps) auto
  qed
qed

subsection \<open>The setup, the cleanup and the codes of InternalCapture\<close>

lemma setup_trace_plain:
  "LogInfo (SavedTo path) \<notin> set (snd (InternalCapture_setup p hb hc)) \<and>
   LogError ErrorSaving \<notin> set (snd (InternalCapture_setup p hb hc)) \<and>
   LogInfo FrameArrivedTriggered \<notin> set (snd (InternalCapture_setup p hb hc))"
  by (simp add: InternalCapture_setup_def Let_def)

lemma setup_begins_with_device:
  "Call Call_CreateD3DDevice \<in> set (snd (InternalCapture_setup p hideBorder hideCursor))"
  by (simp add: InternalCapture_setup_def Let_def)

lemma outer_catch_result:
  "code (outer_catch e t w) \<in> {CaptureSessionFailed, UnknownError} \<and>
   waited_ms (outer_catch e t w) = w \<and>
   set t \<subseteq> set (events (outer_catch e t w)) \<and>
   (\<forall>m. LogInfo m \<in> set (events (outer_catch e t w)) \<longrightarrow> LogInfo m \<in> set t) \<and>
   (\<forall>c. Call c \<in> set (events (outer_catch e t w)) \<longrightarrow> Call c \<in> set t) \<and>
   (LogError ErrorSaving \<in> set (events (outer_catch e t w)) \<longrightarrow> LogError ErrorSaving \<in> set t)"
  by (cases e) (auto simp: outer_catch_def)

lemma cleanup_keeps_trace:
  "set (trace st) \<subseteq> set (events (InternalCapture_cleanup p st el))"
proof -
  have a: "set (trace st) \<subseteq> set (events (outer_catch e (trace st @ xs) el))" for e xs
    using outer_catch_result [of e "trace st @ xs" el] by auto
  show ?thesis
    using a by (auto simp: InternalCapture_cleanup_def Let_def split: option.splits)
qed

lemma cleanup_adds_no_handler_event:
  assumes "ev = LogInfo (SavedTo path) \<or> ev = LogError ErrorSaving \<or> ev = LogInfo FrameArrivedTriggered"
      and "ev \<in> set (events (InternalCapture_cleanup p st el))"
  shows "ev \<in> set (trace st)"
proof -
  have a: "ev \<in> set (events (outer_catch e (trace st @ xs) el)) \<Longrightarrow> ev \<notin> set xs
             \<Longrightarrow> ev \<in> set (trace st)" for e xs
    using outer_catch_result [of e "trace st @ xs" el] assms(1) by auto
  show ?thesis
    using assms a [of _ "[LogInfo FrameProcessed, Call Session_Close]"]
      a [of _ "[LogInfo FrameProcessed, Call Session_Close, Call FramePool_Close]"]
    by (auto simp: InternalCapture_cleanup_def Let_def split: option.splits)
qed

lemma cleanup_code:
  "(x_Session_Close p = None \<and> x_FramePool_Close p = None \<longrightarrow>
      code (InternalCapture_cleanup p st el)
        = (if captureSuccess st then Success else FileSaveFailed)) \<and>
   (x_Session_Close p \<noteq> None \<or> x_FramePool_Close p \<noteq> None \<longrightarrow>
      code (InternalCapture_cleanup p st el) \<in> {CaptureSessionFailed, UnknownError}) \<and>
   waited_ms (InternalCapture_cleanup p st el) = el"
proof -
  have a: "code (outer_catch e t el) \<in> {CaptureSessionFailed, UnknownError}" for e t
    using outer_catch_result [of e t el] by simp
  have b: "waited_ms (outer_catch e t el) = el" for e t
    using outer_catch_result [of e t el] by simp
  show ?thesis
    using a b by (auto simp: InternalCapture_cleanup_def Let_def split: option.splits)
qed

text \<open>The shape of every run whose setup completes.\<close>

lemma InternalCapture_after_setup:
  assumes "InternalCapture_setup p hideBorder hideCursor = (None, t)"
      and "wait_loop outputPath (pump p) 0
             \<lparr>frameReceived = False, captureSuccess = False,
              trace = t @ [LogInfo WaitingForFrame]\<rparr> = (st, el)"
  shows "InternalCapture p outputPath hideBorder hideCursor =
           (if frameReceived st then InternalCapture_cleanup p st el
            else \<lparr>code = TimeoutError, events = trace st @ [LogError TimeoutNoFrame],
                  waited_ms = el\<rparr>)"
  using assms by (simp add: InternalCapture_def)

lemma InternalCapture_setup_failure:
  assumes "InternalCapture_setup p hideBorder hideCursor = (Some e, t)"
  shows "InternalCapture p outputPath hideBorder hideCursor = outer_catch e t 0"
  using assms by (simp add: InternalCapture_def)

lemma setup_failure_no_wait:
  assumes "fst (InternalCapture_setup p hideBorder hideCursor) \<noteq> None"
  shows "code (InternalCapture p outputPath hideBorder hideCursor)
           \<in> {CaptureSessionFailed, UnknownError} \<and>
         waited_ms (InternalCapture p outputPath hideBorder hideCursor) = 0 \<and>
         LogInfo WaitingForFrame
           \<notin> set (events (InternalCapture p outputPath hideBorder hideCursor))"
proof -
  obtain e t where su: "InternalCapture_setup p hideBorder hideCursor = (Some e, t)"
    using assms by (cases "InternalCapture_setup p hideBorder hideCursor") auto
  have "LogInfo WaitingForFrame \<notin> set (snd (InternalCapture_setup p hideBorder hideCursor))"
    by (simp add: InternalCapture_setup_def Let_def)
  then have "LogInfo WaitingForFrame \<notin> set t" by (simp add: su)
  then show ?thesis
    using outer_catch_result [of e t 0] by (auto simp: InternalCapture_setup_failure [OF su])
qed

lemma InternalCapture_acquires:
  "Call Call_CreateD3DDevice \<in> set (events (InternalCapture p outputPath hideBorder hideCursor))"
proof (cases "InternalCapture_setup p hideBorder hideCursor")
  case (Pair x t)
  have t: "Call Call_CreateD3DDevice \<in> set t"
    using setup_begins_with_device [of p hideBorder hideCursor] Pair by simp
  show ?thesis
  proof (cases x)
    case (Some e)
    then show ?thesis
      using Pair t outer_catch_result [of e t 0]
      by (auto simp: InternalCapture_setup_failure)
  next
    case None
    define st0 where "st0 = \<lparr>frameReceived = False, captureSuccess = False,
        trace = t @ [LogInfo WaitingForFrame]\<rparr>"
    obtain st el where w: "wait_loop outputPath (pump p) 0 st0 = (st, el)"
      by (cases "wait_loop outputPath (pump p) 0 st0")
    from wait_loop_trace_mono [of st0 outputPath "pump p" 0] w t
    have "Call Call_CreateD3DDevice \<in> set (trace st)" by (auto simp: st0_def)
    then show ?thesis
      using Pair None cleanup_keeps_trace [of st p el]
      by (auto simp: InternalCapture_after_setup [OF _ w [unfolded st0_def]])
  qed
qed

lemma CaptureScreenWithOptions_valid_path_acquires:
  "path \<noteq> [] \<Longrightarrow>
   Call Call_CreateD3DDevice
     \<in> set (snd (CaptureScreenWithOptions p (Some path) hideBorder hideCursor))"
  using InternalCapture_acquires [of p path "hideBorder \<noteq> 0" "hideCursor \<noteq> 0"]
  by (simp add: CaptureScreenWithOptions_def CaptureToFile_def Let_def)

lemma InternalCapture_codes:
  "code (InternalCapture p outputPath hideBorder hideCursor)
     \<in> {Success, FileSaveFailed, TimeoutError, CaptureSessionFailed, UnknownError}"
proof (cases "InternalCapture_setup p hideBorder hideCursor")
  case (Pair x t)
  show ?thesis
  proof (cases x)
    case (Some e)
    then show ?thesis
      using Pair outer_catch_result [of e t 0] by (auto simp: InternalCapture_setup_failure)
  next
    case None
    obtain st el where w: "wait_loop outputPath (pump p) 0
        \<lparr>frameReceived = False, captureSuccess = False,
         trace = t @ [LogInfo WaitingForFrame]\<rparr> = (st, el)"
      by (cases "wait_loop outputPath (pump p) 0
        \<lparr>frameReceived = False, captureSuccess = False,
         trace = t @ [LogInfo WaitingForFrame]\<rparr>")
    have c: "code (InternalCapture_cleanup p st el)
               \<in> {Success, FileSaveFailed, CaptureSessionFailed, UnknownError}"
      using cleanup_code [of p st el]
      by (cases "x_Session_Close p = None \<and> x_FramePool_Close p = None") auto
    show ?thesis
      using Pair None c by (auto simp: InternalCapture_after_setup [OF _ w])
  qed
qed

lemma cleanup_closes:
  assumes "code (InternalCapture_cleanup p st el) \<in> {Success, FileSaveFailed}"
  shows "Call Session_Close \<in> set (events (InternalCapture_cleanup p st el)) \<and>
         Call FramePool_Close \<in> set (events (InternalCapture_cleanup p st el))"
proof -
  have "x_Session_Close p = None \<and> x_FramePool_Close p = None"
    using assms cleanup_code [of p st el] by auto
  then show ?thesis by (simp add: InternalCapture_cleanup_def Let_def)
qed

lemma InternalCapture_closes_after_frame:
  assumes "code (InternalCapture p outputPath hideBorder hideCursor) \<in> {Success, FileSaveFailed}"
  shows "Call Session_Close \<in> set (events (InternalCapture p outputPath hideBorder hideCursor)) \<and>
         Call FramePool_Close \<in> set (events (InternalCapture p outputPath hideBorder hideCursor))"
proof (cases "InternalCapture_setup p hideBorder hideCursor")
  case (Pair x t)
  show ?thesis
  proof (cases x)
    case (Some e)
    then show ?thesis
      using Pair assms outer_catch_result [of e t 0]
      by (auto simp: InternalCapture_setup_failure)
  next
    case None
    obtain st el where w: "wait_loop outputPath (pump p) 0
        \<lparr>frameReceived = False, captureSuccess = False,
         trace = t @ [LogInfo WaitingForFrame]\<rparr> = (st, el)"
      by (cases "wait_loop outputPath (pump p) 0
        \<lparr>frameReceived = False, captureSuccess = False,
         trace = t @ [LogInfo WaitingForFrame]\<rparr>")
    have r: "InternalCapture p outputPath hideBorder hideCursor =
           (if frameReceived st then InternalCapture_cleanup p st el
            else \<lparr>code = TimeoutError, events = trace st @ [LogError TimeoutNoFrame],
                  waited_ms = el\<rparr>)"
      using Pair None by (simp add: InternalCapture_after_setup [OF _ w])
    show ?thesis
    proof (cases "frameReceived st")
      case True
      then show ?thesis using assms r cleanup_closes [of p st el] by simp
    next
      case False
      then show ?thesis using assms r by simp
    qed
  qed
qed

lemma InternalCapture_failed_device_code:
  assumes "FAILED (hr_D3D11CreateDevice p)"
  shows "code (InternalCapture p outputPath hideBorder hideCursor) = CaptureSessionFailed"
  using assms
  by (simp add: InternalCapture_def InternalCapture_setup_def CreateD3DDevice_def
        outer_catch_def Let_def)

subsection \<open>The code does not depend on the recorded events, nor on the border toggle\<close>

lemma process_frame_same_flags:
  assumes "same_flags st st'"
  shows "fst (process_frame path n st) = fst (process_frame path n st') \<and>
         same_flags (snd (process_frame path n st)) (snd (process_frame path n st'))"
  using assms
  by (auto simp: same_flags_def process_frame_def Let_def split: option.splits)

lemma handler_same_flags:
  assumes "same_flags st st'"
  shows "same_flags (FrameArrived_handler path n st) (FrameArrived_handler path n st')"
proof -
  have s1: "same_flags (emit (LogInfo FrameArrivedTriggered) st)
                       (emit (LogInfo FrameArrivedTriggered) st')"
    using assms by (simp add: same_flags_def)
  obtain x st2 where pf:
    "process_frame path n (emit (LogInfo FrameArrivedTriggered) st) = (x, st2)"
    by (cases "process_frame path n (emit (LogInfo FrameArrivedTriggered) st)")
  obtain x' st2' where pf':
    "process_frame path n (emit (LogInfo FrameArrivedTriggered) st') = (x', st2')"
    by (cases "process_frame path n (emit (LogInfo FrameArrivedTriggered) st')")
  from process_frame_same_flags [OF s1, of path n] pf pf'
  have x: "x' = x" and s2: "same_flags st2 st2'" by simp_all
  show ?thesis
    using s1 s2 pf pf' x
    by (auto simp: FrameArrived_handler_def Let_def same_flags_def split: option.splits)
qed

lemma pump_same_flags:
  "same_flags st st' \<Longrightarrow> same_flags (PumpMessages path ns st) (PumpMessages path ns st')"
  unfolding PumpMessages_def
  by (induction ns arbitrary: st st') (simp_all add: handler_same_flags)

lemma wait_loop_same_flags:
  "same_flags st st' \<Longrightarrow>
   same_flags (fst (wait_loop path its t st)) (fst (wait_loop path its t st')) \<and>
   snd (wait_loop path its t st) = snd (wait_loop path its t st')"
proof (induction path its t st arbitrary: st' rule: wait_loop.induct)
  case (1 path its t st)
  show ?case
  proof (cases "\<not> frameReceived st \<and> t < 10000")
    case True
    then have True': "\<not> frameReceived st' \<and> t < 10000"
      using "1.prems" by (simp add: same_flags_def)
    have eq: "wait_loop path its t st =
                wait_loop path (tl its) (t + extra_ms (next_iteration its) + 50)
                  (PumpMessages path (dispatched (next_iteration its)) st)"
      using True by (subst wait_loop.simps) simp
    have eq': "wait_loop path its t st' =
                wait_loop path (tl its) (t + extra_ms (next_iteration its) + 50)
                  (PumpMessages path (dispatched (next_iteration its)) st')"
      using True' by (subst wait_loop.simps) simp
    from "1.IH" [OF True pump_same_flags [OF "1.prems"]]
    show ?thesis by (simp only: eq eq')
  next
    case False
    then have False': "\<not> (\<not> frameReceived st' \<and> t < 10000)"
      using "1.prems" by (simp add: same_flags_def)
    have eq: "wait_loop path its t st = (st, t)"
      using False by (subst wait_loop.simps) auto
    have eq': "wait_loop path its t st' = (st', t)"
      using False' by (subst wait_loop.simps) auto
    show ?thesis using "1.prems" by (simp add: eq eq')
  qed
qed

lemma outer_catch_code: "code (outer_catch e t w) = code (outer_catch e t' w')"
  by (cases e) (simp_all add: outer_catch_def)

lemma cleanup_same_flags:
  assumes "same_flags st st'"
      and "x_Session_Close p = x_Session_Close q" and "x_FramePool_Close p = x_FramePool_Close q"
  shows "code (InternalCapture_cleanup p st el) = code (InternalCapture_cleanup q st' el')"
  using assms outer_catch_code
  by (auto simp: InternalCapture_cleanup_def same_flags_def Let_def split: option.splits)

lemma helpers_ignore_border [simp]:
  "CreateD3DDevice (p\<lparr>x_IsBorderRequired := x\<rparr>) = CreateD3DDevice p"
  "CreateDirect3DDeviceFromD3D11Device (p\<lparr>x_IsBorderRequired := x\<rparr>)
     = CreateDirect3DDeviceFromD3D11Device p"
  "CreateCaptureItemForMonitor (p\<lparr>x_IsBorderRequired := x\<rparr>) = CreateCaptureItemForMonitor p"
  by (simp_all add: CreateD3DDevice_def CreateDirect3DDeviceFromD3D11Device_def
        CreateCaptureItemForMonitor_def cong: option.case_cong)

lemma setup_border_outcome:
  "fst (InternalCapture_setup (p\<lparr>x_IsBorderRequired := x\<rparr>) hideBorder hideCursor)
     = fst (InternalCapture_setup p hideBorder hideCursor)"
  by (auto simp: InternalCapture_setup_def Let_def)

lemma InternalCapture_code_by_flags:
  assumes "fst (InternalCapture_setup p hideBorder hideCursor)
             = fst (InternalCapture_setup q hideBorder hideCursor)"
      and "pump p = pump q"
      and "x_Session_Close p = x_Session_Close q" and "x_FramePool_Close p = x_FramePool_Close q"
  shows "code (InternalCapture p outputPath hideBorder hideCursor)
           = code (InternalCapture q outputPath hideBorder hideCursor)"
proof (cases "InternalCapture_setup p hideBorder hideCursor")
  case (Pair x t)
  obtain t' where q: "InternalCapture_setup q hideBorder hideCursor = (x, t')"
    using assms(1) Pair by (cases "InternalCapture_setup q hideBorder hideCursor") simp
  show ?thesis
  proof (cases x)
    case (Some e)
    then show ?thesis
      using Pair q outer_catch_code [of e t 0 t' 0]
      by (simp add: InternalCapture_setup_failure)
  next
    case None
    define st0 where "st0 = \<lparr>frameReceived = False, captureSuccess = False,
        trace = t @ [LogInfo WaitingForFrame]\<rparr>"
    define st0' where "st0' = \<lparr>frameReceived = False, captureSuccess = False,
        trace = t' @ [LogInfo WaitingForFrame]\<rparr>"
    obtain st el where w: "wait_loop outputPath (pump q) 0 st0 = (st, el)"
      by (cases "wait_loop outputPath (pump q) 0 st0")
    obtain st' el' where w': "wait_loop outputPath (pump q) 0 st0' = (st', el')"
      by (cases "wait_loop outputPath (pump q) 0 st0'")
    have "same_flags st0 st0'" by (simp add: same_flags_def st0_def st0'_def)
    from wait_loop_same_flags [OF this, of outputPath "pump q" 0] w w'
    have sf: "same_flags st st'" by simp
    have rp: "InternalCapture p outputPath hideBorder hideCursor =
           (if frameReceived st then InternalCapture_cleanup p st el
            else \<lparr>code = TimeoutError, events = trace st @ [LogError TimeoutNoFrame],
                  waited_ms = el\<rparr>)"
      using Pair None w [unfolded st0_def] assms(2)
      by (simp add: InternalCapture_after_setup)
    have rq: "InternalCapture q outputPath hideBorder hideCursor =
           (if frameReceived st' then InternalCapture_cleanup q st' el'
            else \<lparr>code = TimeoutError, events = trace st' @ [LogError TimeoutNoFrame],
                  waited_ms = el'\<rparr>)"
      using q None w' [unfolded st0'_def]
      by (simp add: InternalCapture_after_setup)
    show ?thesis
      using sf cleanup_same_flags [OF sf assms(3) assms(4), of el el']
      by (simp add: rp rq same_flags_def)
  qed
qed

lemma InternalCapture_border_toggle_swallowed:
  "code (InternalCapture (p\<lparr>x_IsBorderRequired := x\<rparr>) outputPath hideBorder hideCursor)
     = code (InternalCapture p outputPath hideBorder hideCursor)"
  by (rule InternalCapture_code_by_flags) (simp_all add: setup_border_outcome)

subsection \<open>Releasing a live block\<close>

lemma FreeBuffer_live_block:
  assumes "buffer \<noteq> 0" and "h buffer = Some bs"
  shows "FreeBuffer buffer h = Some (h(buffer := None))"
  using assms by (simp add: FreeBuffer_def free_def)

lemma FreeBuffer_twice_undefined:
  assumes "buffer \<noteq> 0" and "h buffer = Some bs"
  shows "FreeBuffer buffer (h(buffer := None)) = None"
  using assms by (simp add: FreeBuffer_def free_def)

subsection \<open>A script without notifications\<close>

lemma idle_script_no_arrival:
  assumes "fst (InternalCapture_setup p hideBorder hideCursor) = None"
      and "\<forall>it\<in>set (pump p). dispatched it = []"
  shows "LogInfo FrameArrivedTriggered
           \<notin> set (events (InternalCapture p outputPath hideBorder hideCursor))"
proof -
  define t where "t = snd (InternalCapture_setup p hideBorder hideCursor)"
  define st0 where "st0 = \<lparr>frameReceived = False, captureSuccess = False,
      trace = t @ [LogInfo WaitingForFrame]\<rparr>"
  have su: "InternalCapture_setup p hideBorder hideCursor = (None, t)"
    using assms(1) by (cases "InternalCapture_setup p hideBorder hideCursor") (simp add: t_def)
  obtain st el where w: "wait_loop outputPath (pump p) 0 st0 = (st, el)"
    by (cases "wait_loop outputPath (pump p) 0 st0")
  from wait_loop_idle [OF assms(2), of outputPath 0 st0] w have st: "st = st0" by simp
  have "LogInfo FrameArrivedTriggered \<notin> set t"
    using setup_trace_plain [of outputPath p hideBorder hideCursor] by (simp add: t_def)
  then show ?thesis
    using st by (simp add: InternalCapture_after_setup [OF su w [unfolded st0_def]] st0_def)
qed

section \<open>The claims\<close>

subsection \<open>C1: the wait is bounded\<close>

text \<open>
  C1. The claim is about the wait block: a call whose setup fails ends with the code of
  that failure before any waiting (\<open>setup_failure_no_wait\<close>). For every capture
  invocation whose setup completes (every step up to and including
  \<^verbatim>\<open>session.StartCapture()\<close> returns normally) and in which no frame-ready notification
  is delivered (the handler is never entered: "FrameArrived event triggered!" is not
  among the events of the call), \<^verbatim>\<open>InternalCapture\<close> terminates and returns
  \<^verbatim>\<open>TimeoutError\<close>; the wait lasts at least 10000 ms and less than 10050 ms plus the
  longest extra time of one of its at most 200 turns (the flag is tested again after each
  drain of the message queue and each sleep of 50 ms). Termination itself is the
  totality of \<open>wait_loop\<close>, whose measure is the time left of the 10 seconds. A platform
  that never delivers a notification is one case (\<open>idle_script_no_arrival\<close>); one that
  queues it too late is another.
\<close>

theorem InternalCapture_times_out:
  assumes "fst (InternalCapture_setup p hideBorder hideCursor) = None"
      and "LogInfo FrameArrivedTriggered
             \<notin> set (events (InternalCapture p outputPath hideBorder hideCursor))"
  shows "code (InternalCapture p outputPath hideBorder hideCursor) = TimeoutError \<and>
         10000 \<le> waited_ms (InternalCapture p outputPath hideBorder hideCursor) \<and>
         waited_ms (InternalCapture p outputPath hideBorder hideCursor)
           < 10050 + max_extra_ms (take 200 (pump p))"
proof -
  define t where "t = snd (InternalCapture_setup p hideBorder hideCursor)"
  define st0 where "st0 = \<lparr>frameReceived = False, captureSuccess = False,
      trace = t @ [LogInfo WaitingForFrame]\<rparr>"
  have su: "InternalCapture_setup p hideBorder hideCursor = (None, t)"
    using assms(1) by (cases "InternalCapture_setup p hideBorder hideCursor") (simp add: t_def)
  have nf: "\<not> frameReceived st0" by (simp add: st0_def)
  obtain st el where w: "wait_loop outputPath (pump p) 0 st0 = (st, el)"
    by (cases "wait_loop outputPath (pump p) 0 st0")
  have r: "InternalCapture p outputPath hideBorder hideCursor =
             (if frameReceived st then InternalCapture_cleanup p st el
              else \<lparr>code = TimeoutError, events = trace st @ [LogError TimeoutNoFrame],
                    waited_ms = el\<rparr>)"
    by (rule InternalCapture_after_setup [OF su w [unfolded st0_def]])
  have "set (trace st) \<subseteq> set (events (InternalCapture p outputPath hideBorder hideCursor))"
    using cleanup_keeps_trace [of st p el] by (auto simp: r)
  with assms(2) have "LogInfo FrameArrivedTriggered \<notin> set (trace st)" by auto
  with w have "LogInfo FrameArrivedTriggered
                 \<notin> set (trace (fst (wait_loop outputPath (pump p) 0 st0)))" by simp
  from wait_loop_quiet [OF this nf] w
  have st: "st = st0" and lo: "10000 \<le> el" by simp_all
  from wait_loop_bounded [of 0 "max_extra_ms (take 200 (pump p))" 200 "pump p" outputPath st0] w
  have hi: "el \<le> 10049 + max_extra_ms (take 200 (pump p))" by simp
  show ?thesis using lo hi st nf by (simp add: r)
qed

theorem InternalCapture_times_out_witness:
  "code (InternalCapture late_frame_platform ''screenshot.png'' True True) = TimeoutError \<and>
   10000 \<le> waited_ms (InternalCapture late_frame_platform ''screenshot.png'' True True) \<and>
   waited_ms (InternalCapture late_frame_platform ''screenshot.png'' True True) < 20000 \<and>
   code (InternalCapture silent_platform ''screenshot.png'' True True) = TimeoutError \<and>
   waited_ms (InternalCapture silent_platform ''screenshot.png'' True True) < 10057"
proof -
  have s1: "fst (InternalCapture_setup late_frame_platform True True) = None"
    by (simp add: example_defs InternalCapture_setup_def CreateD3DDevice_def
          CreateDirect3DDeviceFromD3D11Device_def CreateCaptureItemForMonitor_def
          check_hresult_def FAILED_def Let_def)
  have q1: "LogInfo FrameArrivedTriggered
              \<notin> set (events (InternalCapture late_frame_platform ''screenshot.png'' True True))"
    by (simp add: example_defs capture_defs wait_loop.simps)
  have m1: "max_extra_ms (take 200 (pump late_frame_platform)) = 9950"
    by (simp add: example_defs)
  have s2: "fst (InternalCapture_setup silent_platform True True) = None"
    by (simp add: example_defs InternalCapture_setup_def CreateD3DDevice_def
          CreateDirect3DDeviceFromD3D11Device_def CreateCaptureItemForMonitor_def
          check_hresult_def FAILED_def Let_def)
  have i2: "\<forall>it\<in>set (pump silent_platform). dispatched it = []"
    by (simp add: example_defs)
  have m2: "max_extra_ms (take 200 (pump silent_platform)) = 7"
    by (simp add: example_defs)
  show ?thesis
    using InternalCapture_times_out [OF s1 q1] m1
      InternalCapture_times_out [OF s2 idle_script_no_arrival [OF s2 i2]] m2
    by simp
qed

subsection \<open>C2: the result after a frame\<close>

text \<open>
  C2, as amended. For every capture invocation (in particular every one that receives a
  frame notification): the result is \<^verbatim>\<open>Success\<close> if and only if the save block of the
  handler ran to its end (the handler then logs "Screenshot saved successfully") and the
  cleanup that follows, \<^verbatim>\<open>session.Close()\<close> and \<^verbatim>\<open>framePool.Close()\<close>, returns
  normally; and when the save block was entered and failed ("Error saving screenshot to
  file") and no save succeeded, the result is \<^verbatim>\<open>FileSaveFailed\<close> if and only if that
  cleanup returns normally.
\<close>

theorem InternalCapture_success_iff_saved:
  "(code (InternalCapture p outputPath hideBorder hideCursor) = Success \<longleftrightarrow>
      LogInfo (SavedTo outputPath) \<in> set (events (InternalCapture p outputPath hideBorder hideCursor))
      \<and> x_Session_Close p = None \<and> x_FramePool_Close p = None)
   \<and> (LogError ErrorSaving \<in> set (events (InternalCapture p outputPath hideBorder hideCursor))
        \<and> LogInfo (SavedTo outputPath) \<notin> set (events (InternalCapture p outputPath hideBorder hideCursor))
      \<longrightarrow> (code (InternalCapture p outputPath hideBorder hideCursor) = FileSaveFailed \<longleftrightarrow>
             x_Session_Close p = None \<and> x_FramePool_Close p = None))"
proof (cases "InternalCapture_setup p hideBorder hideCursor")
  case (Pair x t)
  have plain: "LogInfo (SavedTo outputPath) \<notin> set t" "LogError ErrorSaving \<notin> set t"
    using setup_trace_plain [of outputPath p hideBorder hideCursor] Pair by simp_all
  show ?thesis
  proof (cases x)
    case (Some e)
    have r: "InternalCapture p outputPath hideBorder hideCursor = outer_catch e t 0"
      using Pair Some by (simp add: InternalCapture_setup_failure)
    show ?thesis using plain outer_catch_result [of e t 0] by (auto simp: r)
  next
    case None
    define st0 where "st0 = \<lparr>frameReceived = False, captureSuccess = False,
        trace = t @ [LogInfo WaitingForFrame]\<rparr>"
    obtain st el where w: "wait_loop outputPath (pump p) 0 st0 = (st, el)"
      by (cases "wait_loop outputPath (pump p) 0 st0")
    have "handler_inv outputPath st0" using plain by (simp add: handler_inv_def st0_def)
    from wait_loop_preserves_inv [OF this, of "pump p" 0] w
    have inv: "handler_inv outputPath st" by simp
    have r: "InternalCapture p outputPath hideBorder hideCursor =
               (if frameReceived st then InternalCapture_cleanup p st el
                else \<lparr>code = TimeoutError, events = trace st @ [LogError TimeoutNoFrame],
                      waited_ms = el\<rparr>)"
      using Pair None by (simp add: InternalCapture_after_setup [OF _ w [unfolded st0_def]])
    show ?thesis
    proof (cases "frameReceived st")
      case False
      then show ?thesis using inv by (auto simp: r handler_inv_def)
    next
      case True
      have saved: "LogInfo (SavedTo outputPath) \<in> set (events (InternalCapture_cleanup p st el))
                     \<longleftrightarrow> captureSuccess st"
        using cleanup_adds_no_handler_event [of "LogInfo (SavedTo outputPath)" outputPath p st el]
          cleanup_keeps_trace [of st p el] inv
        by (auto simp: handler_inv_def)
      show ?thesis
      proof (cases "x_Session_Close p = None \<and> x_FramePool_Close p = None")
        case closes: True
        then show ?thesis using True saved cleanup_code [of p st el] by (auto simp: r)
      next
        case closes: False
        then have "code (InternalCapture_cleanup p st el) \<in> {CaptureSessionFailed, UnknownError}"
          using cleanup_code [of p st el] by blast
        then show ?thesis using True closes by (auto simp: r)
      qed
    qed
  qed
qed

theorem InternalCapture_success_iff_saved_witness:
  "code (InternalCapture save_denied_platform ''screenshot.png'' True True) = FileSaveFailed \<and>
   code (InternalCapture working_platform ''screenshot.png'' True True) = Success"
proof -
  have a: "LogError ErrorSaving
             \<in> set (events (InternalCapture save_denied_platform ''screenshot.png'' True True))"
    by (simp add: example_defs capture_defs wait_loop.simps)
  have b: "LogInfo (SavedTo ''screenshot.png'')
             \<notin> set (events (InternalCapture save_denied_platform ''screenshot.png'' True True))"
    by (simp add: example_defs capture_defs wait_loop.simps)
  have c: "LogInfo (SavedTo ''screenshot.png'')
             \<in> set (events (InternalCapture working_platform ''screenshot.png'' True True))"
    by (simp add: example_defs capture_defs wait_loop.simps)
  have d: "x_Session_Close save_denied_platform = None \<and> x_FramePool_Close save_denied_platform = None"
          "x_Session_Close working_platform = None \<and> x_FramePool_Close working_platform = None"
    by (simp_all add: example_defs)
  show ?thesis
    using a b c d
      InternalCapture_success_iff_saved [of save_denied_platform "''screenshot.png''" True True]
      InternalCapture_success_iff_saved [of working_platform "''screenshot.png''" True True]
    by blast
qed

text \<open>
  C2 as stated fails in two ways. When the cleanup throws: the frame arrives, the save
  succeeds inside the handler, \<^verbatim>\<open>session.Close()\<close> throws inside the outer \<^verbatim>\<open>try\<close>,
  and the call returns \<^verbatim>\<open>CaptureSessionFailed\<close>. And when a frame is received and
  mapping it runs out of memory: \<^verbatim>\<open>check_hresult\<close> throws \<^verbatim>\<open>std::bad_alloc\<close>, which no
  \<^verbatim>\<open>catch\<close> of the handler takes, no save is made, the flag stays unset and the call
  returns \<^verbatim>\<open>TimeoutError\<close>, not \<^verbatim>\<open>FileSaveFailed\<close>.
\<close>

theorem InternalCapture_saved_not_success_counterexample:
  "LogInfo FrameArrivedTriggered
     \<in> set (events (InternalCapture close_fails_platform ''screenshot.png'' True True)) \<and>
   LogInfo (SavedTo ''screenshot.png'')
     \<in> set (events (InternalCapture close_fails_platform ''screenshot.png'' True True)) \<and>
   code (InternalCapture close_fails_platform ''screenshot.png'' True True) = CaptureSessionFailed \<and>
   LogInfo FrameCaptured
     \<in> set (events (InternalCapture map_out_of_memory_platform ''screenshot.png'' True True)) \<and>
   LogInfo (SavedTo ''screenshot.png'')
     \<notin> set (events (InternalCapture map_out_of_memory_platform ''screenshot.png'' True True)) \<and>
   code (InternalCapture map_out_of_memory_platform ''screenshot.png'' True True) = TimeoutError"
  by (simp add: example_defs capture_defs wait_loop.simps)

subsection \<open>C3: the cleanup\<close>

text \<open>
  C3. The session and the frame pool are closed after a frame was handled
  (\<open>InternalCapture_closes_after_frame\<close>), and on no other path: when no notification
  arrives, \<^verbatim>\<open>InternalCapture\<close> returns \<^verbatim>\<open>TimeoutError\<close> from inside the wait block,
  before the two \<^verbatim>\<open>Close()\<close> calls; and when \<^verbatim>\<open>StartCapture\<close> throws, the handler of the
  outer \<^verbatim>\<open>try\<close> returns without them. In both runs the session and the pool had been
  created.
\<close>

theorem InternalCapture_timeout_skips_cleanup:
  "code (InternalCapture silent_platform ''screenshot.png'' True True) = TimeoutError \<and>
   Call CreateCaptureSession \<in> set (events (InternalCapture silent_platform ''screenshot.png'' True True)) \<and>
   Call FramePool_Create \<in> set (events (InternalCapture silent_platform ''screenshot.png'' True True)) \<and>
   Call Session_Close \<notin> set (events (InternalCapture silent_platform ''screenshot.png'' True True)) \<and>
   Call FramePool_Close \<notin> set (events (InternalCapture silent_platform ''screenshot.png'' True True)) \<and>
   code (InternalCapture (working_platform\<lparr>x_StartCapture := Some hresult_error\<rparr>)
           ''screenshot.png'' True True) = CaptureSessionFailed \<and>
   Call CreateCaptureSession
     \<in> set (events (InternalCapture (working_platform\<lparr>x_StartCapture := Some hresult_error\<rparr>)
                       ''screenshot.png'' True True)) \<and>
   Call Session_Close
     \<notin> set (events (InternalCapture (working_platform\<lparr>x_StartCapture := Some hresult_error\<rparr>)
                       ''screenshot.png'' True True))"
  by (simp add: example_defs capture_defs wait_loop.simps)

subsection \<open>C4: the visibility toggles\<close>

text \<open>
  C4. A failure of the border toggle never changes the code
  (\<open>InternalCapture_border_toggle_swallowed\<close>). A failure of the cursor toggle does:
  \<^verbatim>\<open>session.IsCursorCaptureEnabled(false)\<close> stands outside any \<^verbatim>\<open>try\<close> of its own, so on
  a platform where everything else succeeds, and where the same call returns
  \<^verbatim>\<open>Success\<close> once the toggle is supported, the invocation with \<^verbatim>\<open>hideCursor\<close> set
  returns \<^verbatim>\<open>CaptureSessionFailed\<close>, with either value of \<^verbatim>\<open>hideBorder\<close>.
\<close>

theorem InternalCapture_cursor_toggle_failure:
  "code (InternalCapture (working_platform\<lparr>x_IsCursorCaptureEnabled := Some hresult_error\<rparr>)
           ''screenshot.png'' True True) = CaptureSessionFailed \<and>
   code (InternalCapture (working_platform\<lparr>x_IsCursorCaptureEnabled := Some hresult_error\<rparr>)
           ''screenshot.png'' False True) = CaptureSessionFailed \<and>
   code (InternalCapture working_platform ''screenshot.png'' True True) = Success"
  by (simp add: example_defs capture_defs wait_loop.simps)

subsection \<open>C5: a failing device provider\<close>

text \<open>
  C5. When \<^verbatim>\<open>D3D11CreateDevice\<close> fails, be it with a general error or because no
  feature level of the list is supported, \<^verbatim>\<open>CreateD3DDevice\<close> throws \<^verbatim>\<open>hresult_error\<close>
  and \<^verbatim>\<open>InternalCapture\<close> returns \<^verbatim>\<open>CaptureSessionFailed\<close>. No path of
  \<^verbatim>\<open>InternalCapture\<close> returns \<^verbatim>\<open>InitializationFailed\<close> (\<open>InternalCapture_codes\<close>).
\<close>

theorem InternalCapture_device_failure:
  "code (InternalCapture (working_platform\<lparr>hr_D3D11CreateDevice := E_FAIL\<rparr>)
           ''screenshot.png'' True True) = CaptureSessionFailed \<and>
   code (InternalCapture (working_platform\<lparr>hr_D3D11CreateDevice := DXGI_ERROR_UNSUPPORTED\<rparr>)
           ''screenshot.png'' True True) = CaptureSessionFailed"
  by (simp add: example_defs capture_defs)

subsection \<open>C6: a failing frame materialization\<close>

text \<open>
  C6. When the interface negotiation (\<^verbatim>\<open>GetInterface\<close>) or the mapping (\<^verbatim>\<open>Map\<close>) of the
  delivered frame fails, the handler logs the error and signals completion with
  \<^verbatim>\<open>captureSuccess\<close> still false, and \<^verbatim>\<open>InternalCapture\<close> returns \<^verbatim>\<open>FileSaveFailed\<close>.
  No path of \<^verbatim>\<open>InternalCapture\<close> returns \<^verbatim>\<open>TextureProcessingFailed\<close>
  (\<open>InternalCapture_codes\<close>).
\<close>

theorem InternalCapture_texture_failure:
  "code (InternalCapture
           (working_platform\<lparr>pump := [\<lparr>dispatched = [working_notification\<lparr>hr_GetInterface := E_NOINTERFACE\<rparr>],
                                       extra_ms = 40\<rparr>]\<rparr>)
           ''screenshot.png'' True True) = FileSaveFailed \<and>
   code (InternalCapture
           (working_platform\<lparr>pump := [\<lparr>dispatched = [working_notification\<lparr>hr_Map := E_FAIL\<rparr>],
                                       extra_ms = 40\<rparr>]\<rparr>)
           ''screenshot.png'' True True) = FileSaveFailed"
  by (simp add: example_defs capture_defs wait_loop.simps)

subsection \<open>C7: a null or empty output path\<close>

text \<open>
  C7. For a null and for an empty output path, \<^verbatim>\<open>CaptureScreenWithOptions\<close> and
  \<^verbatim>\<open>CaptureScreen\<close> return \<^verbatim>\<open>SC_INVALID_PARAMETER\<close> and do nothing else: no call that
  acquires a device, a capture target or a session is made, and the logger is not called.
  (With any other path the device is asked for:
  \<open>CaptureScreenWithOptions_valid_path_acquires\<close>.)
\<close>

theorem CaptureScreenWithOptions_invalid_path:
  "CaptureScreenWithOptions p None hideBorder hideCursor = (SC_INVALID_PARAMETER, []) \<and>
   CaptureScreenWithOptions p (Some []) hideBorder hideCursor = (SC_INVALID_PARAMETER, []) \<and>
   CaptureScreen p None = (SC_INVALID_PARAMETER, []) \<and>
   CaptureScreen p (Some []) = (SC_INVALID_PARAMETER, [])"
  by (simp add: CaptureScreenWithOptions_def CaptureScreen_def)

subsection \<open>C8: the outputs of the memory capture\<close>

text \<open>
  C8, as amended. For every call of \<^verbatim>\<open>CaptureScreenToMemory\<close>: with a null
  out-parameter it returns \<^verbatim>\<open>SC_INVALID_PARAMETER\<close> and writes nothing. With both
  out-parameters non-null: if the result is \<^verbatim>\<open>SC_SUCCESS\<close>, the core reported success,
  the size is the byte length of the PNG sequence (its low 32 bits; the length itself
  below 2^32 bytes), and the buffer is null when the sequence is empty and otherwise a
  non-null block that holds these bytes; if the result is not \<^verbatim>\<open>SC_SUCCESS\<close>, the buffer
  is set to null and the heap is as before, and the size is set to zero unless the one
  allocation of the call failed.
\<close>

theorem CaptureScreenToMemory_outputs:
  assumes run: "CaptureScreenToMemory CaptureToMemory malloc outputBuffer bufferSize hideBorder hideCursor h
                  = (res, ob, sz, h')"
  shows "(outputBuffer = None \<or> bufferSize = None \<longrightarrow>
            res = SC_INVALID_PARAMETER \<and> ob = outputBuffer \<and> sz = bufferSize \<and> h' = h)
       \<and> (outputBuffer \<noteq> None \<and> bufferSize \<noteq> None \<longrightarrow>
            (res = SC_SUCCESS \<longrightarrow>
               (\<exists>png. CaptureToMemory (hideBorder \<noteq> 0) (hideCursor \<noteq> 0) = CoreReturns Success png \<and>
                      sz = Some (word_of_nat (length png)) \<and>
                      (length png < 2 ^ 32 \<longrightarrow> map_option unat sz = Some (length png)) \<and>
                      (png = [] \<longrightarrow> ob = Some 0 \<and> h' = h) \<and>
                      (png \<noteq> [] \<and> length png < 2 ^ 32 \<longrightarrow>
                         (\<exists>a. a \<noteq> 0 \<and> ob = Some a \<and> h' = h(a \<mapsto> png)))))
          \<and> (res \<noteq> SC_SUCCESS \<longrightarrow>
               ob = Some 0 \<and> h' = h \<and>
               (\<not> allocation_fails CaptureToMemory malloc hideBorder hideCursor \<longrightarrow> sz = Some 0)))"
proof (cases "outputBuffer = None \<or> bufferSize = None")
  case True
  then show ?thesis using run by (auto simp: CaptureScreenToMemory_def)
next
  case False
  show ?thesis
  proof (cases "CaptureToMemory (hideBorder \<noteq> 0) (hideCursor \<noteq> 0)")
    case CoreThrows
    then show ?thesis using run False by (auto simp: CaptureScreenToMemory_def)
  next
    case (CoreReturns result buffer)
    show ?thesis
    proof (cases "result = Success \<and> buffer \<noteq> []")
      case nonempty: False
      then show ?thesis using run False CoreReturns
        by (cases result) (auto simp: CaptureScreenToMemory_def)
    next
      case True
      have u: "length buffer < 2 ^ 32 \<Longrightarrow>
                 unat (word_of_nat (length buffer) :: 32 word) = length buffer"
        by (simp add: unat_of_nat)
      show ?thesis
      proof (cases "malloc (unat (word_of_nat (length buffer) :: 32 word)) = 0")
        case failed: True
        then show ?thesis using run False CoreReturns True
          by (auto simp: CaptureScreenToMemory_def allocation_fails_def Let_def)
      next
        case allocated: False
        then have eq: "(res, ob, sz, h') =
              (SC_SUCCESS, Some (malloc (unat (word_of_nat (length buffer) :: 32 word))),
               Some (word_of_nat (length buffer)),
               h(malloc (unat (word_of_nat (length buffer) :: 32 word))
                   \<mapsto> take (unat (word_of_nat (length buffer) :: 32 word)) buffer))"
          using run False CoreReturns True
          by (auto simp: CaptureScreenToMemory_def Let_def)
        show ?thesis using eq False CoreReturns True u allocated by auto
      qed
    qed
  qed
qed

theorem CaptureScreenToMemory_outputs_witness:
  "CaptureScreenToMemory signature_core small_malloc (Some 0) (Some 0) 1 1 Map.empty
     = (SC_SUCCESS, Some 4096, Some 8, [4096 \<mapsto> png_signature]) \<and>
   CaptureScreenToMemory timeout_core small_malloc (Some 7) (Some 9) 1 1 Map.empty
     = (SC_TIMEOUT_ERROR, Some 0, Some 0, Map.empty) \<and>
   CaptureScreenToMemory signature_core small_malloc None (Some 5) 1 1 Map.empty
     = (SC_INVALID_PARAMETER, None, Some 5, Map.empty)"
proof -
  obtain r1 o1 z1 h1 where run1:
    "CaptureScreenToMemory signature_core small_malloc (Some 0) (Some 0) 1 1 Map.empty
       = (r1, o1, z1, h1)"
    by (cases "CaptureScreenToMemory signature_core small_malloc (Some 0) (Some 0) 1 1 Map.empty")
       auto
  have ok1: "r1 = SC_SUCCESS"
    using run1
    by (simp add: CaptureScreenToMemory_def signature_core_def png_signature_def small_malloc_def)
  have a1: "o1 = Some 4096 \<and> h1 = [4096 \<mapsto> png_signature]"
    using run1
    by (auto simp: CaptureScreenToMemory_def signature_core_def png_signature_def small_malloc_def)
  from CaptureScreenToMemory_outputs [OF run1] ok1
  have z1: "z1 = Some 8" by (auto simp: signature_core_def png_signature_def)
  obtain r2 o2 z2 h2 where run2:
    "CaptureScreenToMemory timeout_core small_malloc (Some 7) (Some 9) 1 1 Map.empty
       = (r2, o2, z2, h2)"
    by (cases "CaptureScreenToMemory timeout_core small_malloc (Some 7) (Some 9) 1 1 Map.empty")
       auto
  have r2: "r2 = SC_TIMEOUT_ERROR"
    using run2 by (simp add: CaptureScreenToMemory_def timeout_core_def)
  have na: "\<not> allocation_fails timeout_core small_malloc 1 1"
    by (simp add: allocation_fails_def timeout_core_def)
  from CaptureScreenToMemory_outputs [OF run2] r2 na
  have b2: "o2 = Some 0 \<and> z2 = Some 0 \<and> h2 = Map.empty" by simp
  obtain r3 o3 z3 h3 where run3:
    "CaptureScreenToMemory signature_core small_malloc None (Some 5) 1 1 Map.empty
       = (r3, o3, z3, h3)"
    by (cases "CaptureScreenToMemory signature_core small_malloc None (Some 5) 1 1 Map.empty")
       auto
  from CaptureScreenToMemory_outputs [OF run3]
  have g3: "r3 = SC_INVALID_PARAMETER \<and> o3 = None \<and> z3 = Some 5 \<and> h3 = Map.empty" by simp
  show ?thesis using run1 ok1 a1 z1 run2 r2 b2 run3 g3 by simp
qed

text \<open>
  C8 as stated fails where the function returns before it writes, and where the core
  succeeds with no bytes: with a null \<^verbatim>\<open>bufferSize\<close> the result is
  \<^verbatim>\<open>SC_INVALID_PARAMETER\<close> and the caller's buffer variable keeps its old value; with an
  empty byte sequence the result is \<^verbatim>\<open>SC_SUCCESS\<close> and the buffer is null.
\<close>

theorem CaptureScreenToMemory_counterexample:
  "CaptureScreenToMemory empty_core fixed_malloc (Some 7) None 1 1 Map.empty
     = (SC_INVALID_PARAMETER, Some 7, None, Map.empty) \<and>
   CaptureScreenToMemory empty_core fixed_malloc (Some 7) (Some 9) 1 1 Map.empty
     = (SC_SUCCESS, Some 0, Some 0, Map.empty)"
  by (simp add: CaptureScreenToMemory_def empty_core_def)

subsection \<open>C9: the description of a code\<close>

text \<open>
  C9. \<^verbatim>\<open>GetErrorDescription\<close> returns a non-empty text for every integer: for the value
  of every member of \<^verbatim>\<open>ScreenCaptureResult\<close> and of \<^verbatim>\<open>ErrorCode\<close>, and for every
  other integer, such as 12345, which gets the default text. As a function of the model
  it is total and has no effect.
\<close>

theorem GetErrorDescription_total:
  "GetErrorDescription errorCode \<noteq> [] \<and>
   GetErrorDescription (ScreenCaptureResult_value r) \<noteq> [] \<and>
   GetErrorDescription (ErrorCode_value e) \<noteq> [] \<and>
   GetErrorDescription 12345 = ''Unknown error occurred''"
proof -
  have every: "GetErrorDescription c \<noteq> []" for c
    by (simp add: GetErrorDescription_def)
  have other: "GetErrorDescription 12345 = ''Unknown error occurred''"
    by (simp add: GetErrorDescription_def)
  show ?thesis
    using every [of errorCode] every [of "ScreenCaptureResult_value r"]
      every [of "ErrorCode_value e"] other
    by (intro conjI)
qed

subsection \<open>C10: releasing a null buffer\<close>

text \<open>
  C10. \<^verbatim>\<open>FreeBuffer\<close> of the null pointer returns normally and leaves the heap as it is,
  whatever the heap holds.
\<close>

theorem FreeBuffer_null:
  "FreeBuffer 0 h = Some h"
  by (simp add: FreeBuffer_def)

end
